theory Spec2Isabelle
  imports Main
begin

section \<open>JavaScript values, promises and exceptions\<close>

text \<open>
  The values the wrapper handles. Numbers are modelled as integers (identifiers such as
  \<open>id: 1\<close>); dates and binary keys are left out. An object is its list of own properties.
\<close>

datatype jsval =
    JUndefined
  | JNull
  | JBool bool
  | JNum int
  | JStr string
  | JArr "jsval list"
  | JObj "(string \<times> jsval) list"

type_synonym jsobject = "(string \<times> jsval) list"

text \<open>Exceptions thrown by the language or by the engine. A call either throws
  synchronously or returns.\<close>

datatype exn =
    TypeError | NotFoundError | DataError | ReadOnlyError | ConstraintError | InvalidStateError

datatype 'a res = Throw exn | Return 'a

text \<open>Whether an object has an own property of a name (what the built-in
  \<open>Object.prototype.hasOwnProperty\<close> computes), and \<open>value[key]\<close>. A missing property reads as
  \<open>undefined\<close>.\<close>

definition owns_property :: "jsobject \<Rightarrow> string \<Rightarrow> bool" where
  "owns_property obj k = (map_of obj k \<noteq> None)"

definition obj_get :: "jsobject \<Rightarrow> string \<Rightarrow> jsval" where
  "obj_get obj k = (case map_of obj k of None \<Rightarrow> JUndefined | Some v \<Rightarrow> v)"

text \<open>
  \<open>value.hasOwnProperty(key)\<close> is a method call: the method is looked up on the value. An own
  property named \<open>hasOwnProperty\<close> shadows the built-in; the values modelled here hold no
  functions, so calling that property throws a \<open>TypeError\<close>.
\<close>

definition hasOwnProperty :: "jsobject \<Rightarrow> string \<Rightarrow> bool res" where
  "hasOwnProperty obj k =
     (if owns_property obj ''hasOwnProperty'' then Throw TypeError
      else Return (owns_property obj k))"

text \<open>The same operations on a value read back from the engine (\<open>cursor.value\<close>). The engine
  stores plain objects only, so the other cases are never reached.\<close>

fun owns :: "jsval \<Rightarrow> string \<Rightarrow> bool" where
  "owns (JObj obj) k = owns_property obj k"
| "owns _ k = False"

fun has_own :: "jsval \<Rightarrow> string \<Rightarrow> bool res" where
  "has_own (JObj obj) k = hasOwnProperty obj k"
| "has_own _ k = Return False"

fun get_prop :: "jsval \<Rightarrow> string \<Rightarrow> jsval" where
  "get_prop (JObj obj) k = obj_get obj k"
| "get_prop _ k = JUndefined"

text \<open>
  Strict equality \<open>===\<close>. Primitives compare by value; arrays and objects compare by
  reference. Every comparison in the source has a value produced by the engine (a fresh
  structured clone) on one side and a value of the caller on the other, so two arrays or two
  objects are never the same reference there.
\<close>

fun strict_eq :: "jsval \<Rightarrow> jsval \<Rightarrow> bool" where
  "strict_eq JUndefined JUndefined = True"
| "strict_eq JNull JNull = True"
| "strict_eq (JBool a) (JBool b) = (a = b)"
| "strict_eq (JNum a) (JNum b) = (a = b)"
| "strict_eq (JStr a) (JStr b) = (a = b)"
| "strict_eq _ _ = False"

text \<open>\<open>Array.prototype.indexOf\<close>: the first index whose element is \<open>===\<close> the argument,
  or \<open>-1\<close>.\<close>

fun indexOf :: "jsval list \<Rightarrow> jsval \<Rightarrow> int" where
  "indexOf [] v = -1"
| "indexOf (x # xs) v =
     (if strict_eq x v then 0
      else (let i = indexOf xs v in if i > -1 then i + 1 else -1))"

text \<open>Truthiness, as tested by \<open>if (...)\<close>.\<close>

fun truthy :: "jsval \<Rightarrow> bool" where
  "truthy JUndefined = False"
| "truthy JNull = False"
| "truthy (JBool b) = b"
| "truthy (JNum n) = (n \<noteq> 0)"
| "truthy (JStr s) = (s \<noteq> [])"
| "truthy (JArr xs) = True"
| "truthy (JObj obj) = True"

text \<open>The entries of the two \<open>errorCode\<close> tables (\<open>db.js\<close> and the index module; the latter's
  \<open>updateSuccess\<close> and \<open>updateFail\<close> are distinct objects, prefixed \<open>idx_\<close> here). The
  messages are left out; \<open>code\<close> is the \<open>code\<close> field.\<close>

datatype status =
    openFail | compatibleFail
  | setSuccess | setFail | setNoCorresponding
  | updateSuccess | updateFail
  | removeSuccess | removeFail
  | removeAllSuccess | removeAllFail
  | setBatchSuccess | setBatchFail
  | idx_updateSuccess | idx_updateFail
  | noFound | primaryKey
  | deleteSuccess | deleteFail

fun code :: "status \<Rightarrow> nat" where
  "code openFail = 101"
| "code compatibleFail = 102"
| "code setSuccess = 103"
| "code setFail = 104"
| "code setNoCorresponding = 105"
| "code updateSuccess = 106"
| "code updateFail = 107"
| "code removeSuccess = 108"
| "code removeFail = 109"
| "code removeAllSuccess = 110"
| "code removeAllFail = 111"
| "code setBatchSuccess = 112"
| "code setBatchFail = 113"
| "code idx_updateSuccess = 114"
| "code idx_updateFail = 115"
| "code noFound = 116"
| "code primaryKey = 117"
| "code deleteSuccess = 118"
| "code deleteFail = 119"

text \<open>What a promise settles with: fetched data, a status object, the connection object
  itself (\<open>resolve(this)\<close>) or an exception.\<close>

datatype settled = Data jsval | Stat status | This | Exn exn

datatype promise = Pending | Fulfilled settled | Rejected settled

text \<open>The \<open>resolve\<close> and \<open>reject\<close> functions of a promise are honoured once. Resolving with
  another promise makes the promise follow that one.\<close>

definition resolve :: "promise \<Rightarrow> settled \<Rightarrow> promise" where
  "resolve p v = (if p = Pending then Fulfilled v else p)"

definition reject :: "promise \<Rightarrow> settled \<Rightarrow> promise" where
  "reject p v = (if p = Pending then Rejected v else p)"

definition resolve_with :: "promise \<Rightarrow> promise \<Rightarrow> promise" where
  "resolve_with p q = (if p = Pending then q else p)"

section \<open>The host engine\<close>

text \<open>
  Modelled from the spec: the storage engine of the host (\<open>window.indexedDB\<close>) is no part of
  the repository; the specification names it as the host dependency (named databases,
  versioned upgrades, read-only and read-write transactions, key-path primary keys that are
  unique per store, secondary indexes, forward-only cursors). Its operations follow the
  IndexedDB standard as far as the wrapper uses them: an object store has a key path, its
  records in ascending key order with one record per key, and its indexes; key paths are
  plain property names. A native request ends in a success event carrying a result, or in
  an error event.
\<close>

datatype request = req_success jsval | req_error

record index =
  ix_keyPath :: string
  ix_unique :: bool

record objectStore =
  keyPath :: string
  records :: "jsval list"
  indexes :: "string \<rightharpoonup> index"

text \<open>
  A database: its object stores by name, and the schedule of host failures. Each native
  request (and each step of a cursor) takes the next flag of \<open>faults\<close>; \<open>True\<close> makes it end
  in an error event for a reason the model does not derive from the records (quota, I/O, a
  unique index refusing a record). An exhausted schedule means no further failure.
\<close>

record database =
  stores :: "string \<rightharpoonup> objectStore"
  faults :: "bool list"

definition fault :: "bool list \<Rightarrow> bool" where
  "fault fl = (case fl of [] \<Rightarrow> False | b # bs \<Rightarrow> b)"

text \<open>Valid keys are numbers, strings and arrays of valid keys, ordered numbers before
  strings before arrays.\<close>

fun valid_key :: "jsval \<Rightarrow> bool" where
  "valid_key (JNum n) = True"
| "valid_key (JStr s) = True"
| "valid_key (JArr ks) = (\<forall>k \<in> set ks. valid_key k)"
| "valid_key _ = False"

fun str_less :: "string \<Rightarrow> string \<Rightarrow> bool" where
  "str_less [] [] = False"
| "str_less [] (d # t) = True"
| "str_less (c # s) [] = False"
| "str_less (c # s) (d # t) =
     ((of_char c :: nat) < of_char d \<or> (c = d \<and> str_less s t))"

fun key_less :: "jsval \<Rightarrow> jsval \<Rightarrow> bool" and keys_less :: "jsval list \<Rightarrow> jsval list \<Rightarrow> bool" where
  "key_less (JNum a) (JNum b) = (a < b)"
| "key_less (JNum a) (JStr b) = True"
| "key_less (JNum a) (JArr b) = True"
| "key_less (JStr a) (JStr b) = str_less a b"
| "key_less (JStr a) (JArr b) = True"
| "key_less (JArr a) (JArr b) = keys_less a b"
| "key_less _ _ = False"
| "keys_less [] [] = False"
| "keys_less [] (y # ys) = True"
| "keys_less (x # xs) [] = False"
| "keys_less (x # xs) (y # ys) = (key_less x y \<or> (x = y \<and> keys_less xs ys))"

text \<open>The key of a record under a key path; \<open>None\<close> when the path yields no valid key.\<close>

definition key_of :: "string \<Rightarrow> jsval \<Rightarrow> jsval option" where
  "key_of kp v = (if owns v kp \<and> valid_key (get_prop v kp) then Some (get_prop v kp) else None)"

definition store_keys :: "objectStore \<Rightarrow> jsval list" where
  "store_keys st = map (\<lambda>r. get_prop r (keyPath st)) (records st)"

fun lookup_key :: "string \<Rightarrow> jsval list \<Rightarrow> jsval \<Rightarrow> jsval option" where
  "lookup_key kp [] k = None"
| "lookup_key kp (r # rs) k = (if get_prop r kp = k then Some r else lookup_key kp rs k)"

fun insert_record :: "string \<Rightarrow> jsval \<Rightarrow> jsval list \<Rightarrow> jsval list" where
  "insert_record kp v [] = [v]"
| "insert_record kp v (r # rs) =
     (if key_less (get_prop v kp) (get_prop r kp) then v # r # rs
      else r # insert_record kp v rs)"

definition replace_record :: "string \<Rightarrow> jsval \<Rightarrow> jsval list \<Rightarrow> jsval list" where
  "replace_record kp v rs = map (\<lambda>r. if get_prop r kp = get_prop v kp then v else r) rs"

definition delete_record :: "string \<Rightarrow> jsval \<Rightarrow> jsval list \<Rightarrow> jsval list" where
  "delete_record kp k rs = filter (\<lambda>r. get_prop r kp \<noteq> k) rs"

datatype mode = readonly | readwrite

datatype action =
    Add jsval | Put jsval | Get jsval | GetAll | GetAllKeys | Delete jsval | Clear

text \<open>
  One method call on an object store inside a transaction of the given mode. The call
  throws synchronously (no request is made), or makes a request, which ends in success or,
  when the fault flag \<open>f\<close> is set or the records refuse it (\<open>add\<close> of a key that is present),
  in error. Only a successful write changes the store.
\<close>

fun native :: "objectStore \<Rightarrow> mode \<Rightarrow> action \<Rightarrow> bool \<Rightarrow> (request \<times> objectStore) res" where
  "native st m (Add v) f =
     (if m = readonly then Throw ReadOnlyError
      else if key_of (keyPath st) v = None then Throw DataError
      else if f then Return (req_error, st)
      else if lookup_key (keyPath st) (records st) (get_prop v (keyPath st)) \<noteq> None
        then Return (req_error, st)
      else Return (req_success (get_prop v (keyPath st)),
                   st\<lparr>records := insert_record (keyPath st) v (records st)\<rparr>))"
| "native st m (Put v) f =
     (if m = readonly then Throw ReadOnlyError
      else if key_of (keyPath st) v = None then Throw DataError
      else if f then Return (req_error, st)
      else if lookup_key (keyPath st) (records st) (get_prop v (keyPath st)) \<noteq> None
        then Return (req_success (get_prop v (keyPath st)),
                     st\<lparr>records := replace_record (keyPath st) v (records st)\<rparr>)
      else Return (req_success (get_prop v (keyPath st)),
                   st\<lparr>records := insert_record (keyPath st) v (records st)\<rparr>))"
| "native st m (Get k) f =
     (if \<not> valid_key k then Throw DataError
      else if f then Return (req_error, st)
      else Return (req_success (case lookup_key (keyPath st) (records st) k of
                                  None \<Rightarrow> JUndefined | Some r \<Rightarrow> r), st))"
| "native st m GetAll f =
     (if f then Return (req_error, st) else Return (req_success (JArr (records st)), st))"
| "native st m GetAllKeys f =
     (if f then Return (req_error, st) else Return (req_success (JArr (store_keys st)), st))"
| "native st m (Delete k) f =
     (if m = readonly then Throw ReadOnlyError
      else if \<not> valid_key k then Throw DataError
      else if f then Return (req_error, st)
      else Return (req_success JUndefined,
                   st\<lparr>records := delete_record (keyPath st) k (records st)\<rparr>))"
| "native st m Clear f =
     (if m = readonly then Throw ReadOnlyError
      else if f then Return (req_error, st)
      else Return (req_success JUndefined, st\<lparr>records := []\<rparr>))"




section \<open>The connection manager (class \<open>DB\<close>)\<close>

text \<open>
  What the native open request of \<open>indexedDB.open(name, version)\<close> does: it errors, or it
  succeeds with the database, or it first fires \<open>upgradeneeded\<close> with the database as it is
  before the handler runs. After the handler it succeeds; when the handler threw, the upgrade
  is aborted, the connection is closed and the request ends in an error event.
\<close>

datatype open_response = open_error | open_success database | open_upgradeneeded database

type_synonym factory = "string \<Rightarrow> nat \<Rightarrow> open_response"

record window =
  window_indexedDB :: "factory option"
  window_webkitIndexedDB :: "factory option"

record index_decl =
  indexName :: string
  decl_keyPath :: string
  unique :: bool

record store_decl =
  store_name :: string
  store_key :: string
  indexList :: "index_decl list option"

text \<open>The field \<open>_dataBase\<close> holds the plain object \<open>{}\<close> of the constructor and, once the
  handlers of \<open>open\<close> have assigned it, the native database: an open connection, or the
  closed one that an aborted upgrade leaves.\<close>

datatype handle = Plain jsval | Connection database | Closed

fun truthy_handle :: "handle \<Rightarrow> bool" where
  "truthy_handle (Plain v) = truthy v"
| "truthy_handle (Connection d) = True"
| "truthy_handle Closed = True"

record DB =
  dataBase :: handle
  dataBaseName :: string
  dbVersion :: nat
  indexedDB :: "factory option"
  storeList :: "store_decl list"

definition constructor :: "window \<Rightarrow> string \<Rightarrow> store_decl list \<Rightarrow> DB" where
  "constructor w name sl =
     \<lparr> dataBase = Plain (JObj []),
       dataBaseName = name,
       dbVersion = 1,
       indexedDB = (case window_indexedDB w of Some f \<Rightarrow> Some f
                    | None \<Rightarrow> window_webkitIndexedDB w),
       storeList = sl \<rparr>"

text \<open>The loop of the \<open>onupgradeneeded\<close> handler. \<open>createIndex\<close> may throw, which leaves the
  loop.\<close>

fun upgrade_stores ::
  "(index_decl list \<Rightarrow> objectStore \<Rightarrow> objectStore res) \<Rightarrow> store_decl list \<Rightarrow> database
     \<Rightarrow> database res"
where
  "upgrade_stores ci [] d = Return d"
| "upgrade_stores ci (decl # rest) d =
     (if stores d (store_name decl) = None then
        (case (case indexList decl of
                 None \<Rightarrow> Return \<lparr> keyPath = store_key decl, records = [], indexes = Map.empty \<rparr>
               | Some il \<Rightarrow>
                   ci il \<lparr> keyPath = store_key decl, records = [], indexes = Map.empty \<rparr>) of
           Throw e \<Rightarrow> Throw e
         | Return store \<Rightarrow>
             upgrade_stores ci rest (d\<lparr>stores := (stores d)(store_name decl \<mapsto> store)\<rparr>))
      else upgrade_stores ci rest d)"

text \<open>
  \<open>open\<close> is an \<open>async\<close> function: it never throws to its caller, an exception inside it
  rejects the promise it returns, and a returned value fulfils that promise. The assignment
  to \<open>this._dataBase.transaction.oncomplete\<close> sets a property on a method and has no effect;
  the success event that follows the upgrade resolves the promise. An exception in the
  \<open>onupgradeneeded\<close> handler aborts the upgrade: the error event rejects the promise with
  \<open>openFail\<close>, and \<open>_dataBase\<close>, assigned at the start of the handler, is a closed connection.
\<close>

definition open_db ::
  "(index_decl list \<Rightarrow> objectStore \<Rightarrow> objectStore res) \<Rightarrow> DB \<Rightarrow> promise \<times> DB"
where
  "open_db ci this =
     (if truthy_handle (dataBase this) then
        (case indexedDB this of
           None \<Rightarrow> (Rejected (Exn TypeError), this)
         | Some f \<Rightarrow>
            (case f (dataBaseName this) (dbVersion this) of
               open_error \<Rightarrow> (reject Pending (Stat openFail), this)
             | open_success d \<Rightarrow> (resolve Pending This, this\<lparr>dataBase := Connection d\<rparr>)
             | open_upgradeneeded d \<Rightarrow>
                 (case upgrade_stores ci (storeList this) d of
                    Throw e \<Rightarrow> (reject Pending (Stat openFail), this\<lparr>dataBase := Closed\<rparr>)
                  | Return d' \<Rightarrow> (resolve Pending This, this\<lparr>dataBase := Connection d'\<rparr>))))
      else (Fulfilled (Stat compatibleFail), this))"

text \<open>\<open>DB.open()\<close> has the default \<open>createIndex = ()=> {}\<close>; \<open>IndexDB.open()\<close> passes its own
  \<open>createIndex\<close>. The native \<open>store.createIndex\<close> throws when the store has an index of that
  name already.\<close>

fun createIndex :: "index_decl list \<Rightarrow> objectStore \<Rightarrow> objectStore res" where
  "createIndex [] store = Return store"
| "createIndex (d # ds) store =
     (if indexes store (indexName d) \<noteq> None then Throw ConstraintError
      else createIndex ds
             (store\<lparr>indexes := (indexes store)(indexName d \<mapsto>
                       \<lparr> ix_keyPath = decl_keyPath d, ix_unique = unique d \<rparr>)\<rparr>))"

definition DB_open :: "DB \<Rightarrow> promise \<times> DB" where
  "DB_open this = open_db (\<lambda>il store. Return store) this"

definition IndexDB_open :: "DB \<Rightarrow> promise \<times> DB" where
  "IndexDB_open this = open_db createIndex this"

section \<open>Requests and the promisifier\<close>

text \<open>\<open>this._dataBase.transaction(storeName, mode).objectStore(storeName)\<close>: a plain object
  has no method \<open>transaction\<close>, a closed connection refuses a transaction, and a connection
  has no store of an unknown name.\<close>

definition getStore :: "DB \<Rightarrow> string \<Rightarrow> mode \<Rightarrow> objectStore res" where
  "getStore this storeName m =
     (case dataBase this of
        Plain v \<Rightarrow> Throw TypeError
      | Closed \<Rightarrow> Throw InvalidStateError
      | Connection d \<Rightarrow>
          (case stores d storeName of None \<Rightarrow> Throw NotFoundError | Some st \<Rightarrow> Return st))"

text \<open>The state of the host after a request on a store: the store as the request left it,
  and one fault flag used up.\<close>

definition db_faults :: "DB \<Rightarrow> bool list" where
  "db_faults this =
     (case dataBase this of Plain v \<Rightarrow> [] | Closed \<Rightarrow> [] | Connection d \<Rightarrow> faults d)"

definition commit :: "DB \<Rightarrow> string \<Rightarrow> objectStore \<Rightarrow> bool list \<Rightarrow> DB" where
  "commit this storeName st fl =
     (case dataBase this of
        Plain v \<Rightarrow> this
      | Closed \<Rightarrow> this
      | Connection d \<Rightarrow>
          this\<lparr>dataBase := Connection (d\<lparr>stores := (stores d)(storeName \<mapsto> st), faults := fl\<rparr>)\<rparr>)"

definition makeRequest :: "DB \<Rightarrow> string \<Rightarrow> mode \<Rightarrow> action \<Rightarrow> (request \<times> DB) res" where
  "makeRequest this storeName m a =
     (case getStore this storeName m of
        Throw e \<Rightarrow> Throw e
      | Return st \<Rightarrow>
          (case native st m a (fault (db_faults this)) of
             Throw e \<Rightarrow> Throw e
           | Return (req, st') \<Rightarrow> Return (req, commit this storeName st' (tl (db_faults this)))))"

definition promisify :: "request \<Rightarrow> status \<Rightarrow> status \<Rightarrow> promise" where
  "promisify req success error =
     (case req of
        req_success r \<Rightarrow> resolve Pending (Stat success)
      | req_error \<Rightarrow> reject Pending (Stat error))"

definition promisifyRes :: "request \<Rightarrow> promise" where
  "promisifyRes req =
     (case req of
        req_success r \<Rightarrow> resolve Pending (Data r)
      | req_error \<Rightarrow> resolve Pending (Data JUndefined))"

section \<open>The CRUD facade\<close>

definition update :: "DB \<Rightarrow> string \<Rightarrow> jsobject \<Rightarrow> (promise \<times> DB) res" where
  "update this storeName newValue =
     (case makeRequest this storeName readwrite (Put (JObj newValue)) of
        Throw e \<Rightarrow> Throw e
      | Return (req, this') \<Rightarrow> Return (promisify req updateSuccess updateFail, this'))"

definition get :: "DB \<Rightarrow> string \<Rightarrow> jsval \<Rightarrow> (promise \<times> DB) res" where
  "get this storeName k =
     (case makeRequest this storeName readonly (Get k) of
        Throw e \<Rightarrow> Throw e
      | Return (req, this') \<Rightarrow> Return (promisifyRes req, this'))"


definition getAllKeys :: "DB \<Rightarrow> string \<Rightarrow> (promise \<times> DB) res" where
  "getAllKeys this storeName =
     (case makeRequest this storeName readonly GetAllKeys of
        Throw e \<Rightarrow> Throw e
      | Return (req, this') \<Rightarrow> Return (promisifyRes req, this'))"

definition remove_db :: "DB \<Rightarrow> string \<Rightarrow> jsval \<Rightarrow> (promise \<times> DB) res" where
  "remove_db this storeName k =
     (case makeRequest this storeName readwrite (Delete k) of
        Throw e \<Rightarrow> Throw e
      | Return (req, this') \<Rightarrow> Return (promisify req removeSuccess removeFail, this'))"

definition removeAll_db :: "DB \<Rightarrow> string \<Rightarrow> (promise \<times> DB) res" where
  "removeAll_db this storeName =
     (case makeRequest this storeName readwrite Clear of
        Throw e \<Rightarrow> Throw e
      | Return (req, this') \<Rightarrow> Return (promisify req removeAllSuccess removeAllFail, this'))"

text \<open>
  \<open>set\<close> is an \<open>async\<close> function; its \<open>value\<close> is an object, as its documentation says. An
  exception of \<open>value.hasOwnProperty(key)\<close> rejects the promise of \<open>set\<close>. \<open>await\<close> of the
  promise of \<open>getAllKeys\<close> yields its value; when that value is \<open>undefined\<close> (the request
  failed), \<open>keys.indexOf\<close> throws a \<open>TypeError\<close>, which rejects the promise as well.
\<close>

definition set_db :: "DB \<Rightarrow> string \<Rightarrow> jsobject \<Rightarrow> promise \<times> DB" where
  "set_db this storeName v =
     (case getStore this storeName readonly of
        Throw e \<Rightarrow> (Rejected (Exn e), this)
      | Return store \<Rightarrow>
         (let k = keyPath store in
          case hasOwnProperty v k of
            Throw e \<Rightarrow> (Rejected (Exn e), this)
          | Return False \<Rightarrow> (Fulfilled (Stat setNoCorresponding), this)
          | Return True \<Rightarrow>
            (case getAllKeys this storeName of
               Throw e \<Rightarrow> (Rejected (Exn e), this)
             | Return (p, this1) \<Rightarrow>
                (case p of
                   Pending \<Rightarrow> (Pending, this1)
                 | Rejected r \<Rightarrow> (Rejected r, this1)
                 | Fulfilled (Data (JArr keys)) \<Rightarrow>
                     (if indexOf keys (obj_get v k) > -1 then
                        (case update this1 storeName v of
                           Throw e \<Rightarrow> (Rejected (Exn e), this1)
                         | Return (q, this2) \<Rightarrow> (q, this2))
                      else
                        (case makeRequest this1 storeName readwrite (Add (JObj v)) of
                           Throw e \<Rightarrow> (Rejected (Exn e), this1)
                         | Return (req, this2) \<Rightarrow> (promisify req setSuccess setFail, this2)))
                 | Fulfilled other \<Rightarrow> (Rejected (Exn TypeError), this1)))))"

text \<open>
  \<open>setBatch\<close> calls \<open>set\<close> for every item before it awaits anything, so the calls overlap.
  Each call runs synchronously up to its \<open>await\<close> and is then suspended; the continuations
  run when the \<open>getAllKeys\<close> requests have fired, in the order of the calls; the write
  requests they make fire after that, again in order (a read-write transaction starts only
  when the read-only transactions made before it on the same store are finished). A call is
  therefore cut here at its \<open>await\<close>, and a finished call remembers the round in which its
  promise settled: 0 in the call itself, 1 in the continuation, 2 when its write request fires.
\<close>

datatype task = Done nat promise | AwaitKeys string promise

definition set_begin :: "DB \<Rightarrow> string \<Rightarrow> jsobject \<Rightarrow> task \<times> DB" where
  "set_begin this storeName v =
     (case getStore this storeName readonly of
        Throw e \<Rightarrow> (Done 0 (Rejected (Exn e)), this)
      | Return store \<Rightarrow>
         (let k = keyPath store in
          case hasOwnProperty v k of
            Throw e \<Rightarrow> (Done 0 (Rejected (Exn e)), this)
          | Return False \<Rightarrow> (Done 0 (Fulfilled (Stat setNoCorresponding)), this)
          | Return True \<Rightarrow>
            (case getAllKeys this storeName of
               Throw e \<Rightarrow> (Done 0 (Rejected (Exn e)), this)
             | Return (p, this1) \<Rightarrow> (AwaitKeys k p, this1))))"

fun set_resume :: "DB \<Rightarrow> string \<Rightarrow> jsobject \<Rightarrow> task \<Rightarrow> task \<times> DB" where
  "set_resume this storeName v (Done n p) = (Done n p, this)"
| "set_resume this storeName v (AwaitKeys k p) =
     (case p of
        Pending \<Rightarrow> (Done 1 Pending, this)
      | Rejected r \<Rightarrow> (Done 1 (Rejected r), this)
      | Fulfilled (Data (JArr keys)) \<Rightarrow>
          (if indexOf keys (obj_get v k) > -1 then
             (case update this storeName v of
                Throw e \<Rightarrow> (Done 1 (Rejected (Exn e)), this)
              | Return (q, this2) \<Rightarrow> (Done 2 q, this2))
           else
             (case makeRequest this storeName readwrite (Add (JObj v)) of
                Throw e \<Rightarrow> (Done 1 (Rejected (Exn e)), this)
              | Return (req, this2) \<Rightarrow> (Done 2 (promisify req setSuccess setFail), this2)))
      | Fulfilled other \<Rightarrow> (Done 1 (Rejected (Exn TypeError)), this))"

fun task_promise :: "task \<Rightarrow> promise" where
  "task_promise (Done n p) = p"
| "task_promise (AwaitKeys k p) = Pending"

fun begin_all :: "DB \<Rightarrow> string \<Rightarrow> jsobject list \<Rightarrow> task list \<times> DB" where
  "begin_all this storeName [] = ([], this)"
| "begin_all this storeName (item # rest) =
     (case set_begin this storeName item of
        (t, this1) \<Rightarrow>
          (case begin_all this1 storeName rest of (ts, this2) \<Rightarrow> (t # ts, this2)))"

fun resume_all :: "DB \<Rightarrow> string \<Rightarrow> jsobject list \<Rightarrow> task list \<Rightarrow> task list \<times> DB" where
  "resume_all this storeName (item # rest) (t # ts) =
     (case set_resume this storeName item t of
        (t', this1) \<Rightarrow>
          (case resume_all this1 storeName rest ts of (ts', this2) \<Rightarrow> (t' # ts', this2)))"
| "resume_all this storeName items ts = ([], this)"

text \<open>
  \<open>await Promise.all(setList)\<close>: when a promise of the list rejects, the \<open>await\<close> throws the
  reason of the one that rejected first (lowest round, then position in the list); when all
  are fulfilled it yields the list of their values.
\<close>

fun rejection :: "task \<Rightarrow> (nat \<times> settled) option" where
  "rejection (Done n (Rejected r)) = Some (n, r)"
| "rejection _ = None"

fun fulfilment :: "task \<Rightarrow> settled option" where
  "fulfilment (Done n (Fulfilled v)) = Some v"
| "fulfilment _ = None"

definition first_rejection :: "task list \<Rightarrow> settled option" where
  "first_rejection ts =
     (let rs = List.map_filter rejection ts in
      case filter (\<lambda>(n, r). n = 0) rs @ filter (\<lambda>(n, r). n = 1) rs
           @ filter (\<lambda>(n, r). 2 \<le> n) rs of
        [] \<Rightarrow> None
      | (n, r) # others \<Rightarrow> Some r)"

datatype awaited = Values "settled list" | Thrown settled | Never

definition await_all :: "task list \<Rightarrow> awaited" where
  "await_all ts =
     (case first_rejection ts of
        Some r \<Rightarrow> Thrown r
      | None \<Rightarrow>
          if \<forall>t \<in> set ts. fulfilment t \<noteq> None then Values (List.map_filter fulfilment ts)
          else Never)"

definition setBatch :: "DB \<Rightarrow> string \<Rightarrow> jsobject list \<Rightarrow> promise \<times> DB" where
  "setBatch this storeName list =
     (case begin_all this storeName list of
        (tasks, this1) \<Rightarrow>
          (case resume_all this1 storeName list tasks of
             (setList, this2) \<Rightarrow>
               (case await_all setList of
                  Values resList \<Rightarrow>
                    (Fulfilled (Stat (if length resList = length list then setBatchSuccess
                                      else setBatchFail)), this2)
                | Thrown r \<Rightarrow> (Rejected r, this2)
                | Never \<Rightarrow> (Pending, this2))))"

section \<open>The index facade (class \<open>IndexDB\<close>)\<close>







section \<open>The cursor facade\<close>

text \<open>
  \<open>openCursor\<close> makes one request whose success event fires once per record, in key order,
  each time the handler calls \<open>cursor.continue()\<close>, and a last time with no cursor. Each of
  these steps takes a fault flag; an error event ends the request. The functions below run
  the handlers over the records that are left, threading the promise of the call. They also
  say how the cursor request ended, which the caller of the source cannot see directly:
  exhausted, ended by an error event, or left by an exception in the handler. An exception in
  the handler aborts the transaction; the handler had not called \<open>cursor.continue()\<close>, so no
  further event reaches the request and the promise stays as it is.
\<close>

datatype cursor_end = Exhausted | Errored | HandlerThrew exn

definition getCursor :: "DB \<Rightarrow> string \<Rightarrow> mode \<Rightarrow> objectStore res" where
  "getCursor this storeName m = getStore this storeName m"

text \<open>The test \<open>value.hasOwnProperty(attrName) && value[attrName] === attr\<close> of the two
  handlers below.\<close>

definition cursor_match :: "string \<Rightarrow> jsval \<Rightarrow> jsval \<Rightarrow> bool res" where
  "cursor_match attrName attr v =
     (case has_own v attrName of
        Throw e \<Rightarrow> Throw e
      | Return b \<Rightarrow> Return (b \<and> strict_eq (get_prop v attrName) attr))"

fun getAllByCursor_events ::
  "jsval list \<Rightarrow> jsval list \<Rightarrow> promise \<Rightarrow> bool list \<Rightarrow> promise \<times> cursor_end \<times> bool list"
where
  "getAllByCursor_events [] vals p fl =
     (if fault fl then (resolve p (Data JUndefined), Errored, tl fl)
      else (resolve p (Data (JArr vals)), Exhausted, tl fl))"
| "getAllByCursor_events (v # rest) vals p fl =
     (if fault fl then (resolve p (Data JUndefined), Errored, tl fl)
      else getAllByCursor_events rest (vals @ [v]) p (tl fl))"

definition getAllByCursor :: "DB \<Rightarrow> string \<Rightarrow> (promise \<times> cursor_end \<times> DB) res" where
  "getAllByCursor this storeName =
     (case getCursor this storeName readonly of
        Throw e \<Rightarrow> Throw e
      | Return st \<Rightarrow>
          (case getAllByCursor_events (records st) [] Pending (db_faults this) of
             (p, e, fl) \<Rightarrow> Return (p, e, commit this storeName st fl)))"

text \<open>
  \<open>cursor.update(newVal)\<close> throws a \<open>DataError\<close> when the key of \<open>newVal\<close> is not the key
  under the cursor; otherwise it makes a request that replaces the record. \<open>promisify\<close> on
  that request does not cancel its error event, so a failed update (like an error of the
  cursor request itself) aborts the transaction: the pending \<open>continue\<close> ends in an error
  event and the writes of the call are rolled back.
\<close>

fun updateByCursor_events ::
  "string \<Rightarrow> string \<Rightarrow> jsval \<Rightarrow> jsobject \<Rightarrow> jsval list \<Rightarrow> promise \<Rightarrow> bool list
     \<Rightarrow> promise \<times> cursor_end \<times> jsval list \<times> bool list"
where
  "updateByCursor_events kp attrName attr newVal [] p fl =
     (if fault fl then (resolve p (Stat idx_updateFail), Errored, [], tl fl)
      else (resolve p (Stat noFound), Exhausted, [], tl fl))"
| "updateByCursor_events kp attrName attr newVal (v # rest) p fl =
     (if fault fl then (resolve p (Stat idx_updateFail), Errored, v # rest, tl fl)
      else
        (case cursor_match attrName attr v of
           Throw e \<Rightarrow> (p, HandlerThrew e, v # rest, tl fl)
         | Return True \<Rightarrow>
            (if strict_eq (get_prop v kp) (obj_get newVal kp) then
               (if key_of kp (JObj newVal) \<noteq> Some (get_prop v kp)
                  then (p, HandlerThrew DataError, v # rest, tl fl)
                else if fault (tl fl) then
                  (resolve (resolve_with p (promisify req_error idx_updateSuccess idx_updateFail))
                     (Stat idx_updateFail),
                   Errored, v # rest, tl (tl fl))
                else
                  (case updateByCursor_events kp attrName attr newVal rest
                          (resolve_with p
                             (promisify (req_success (get_prop v kp))
                                idx_updateSuccess idx_updateFail))
                          (tl (tl fl)) of
                     (q, e, rs, fl') \<Rightarrow> (q, e, JObj newVal # rs, fl')))
             else
               (case updateByCursor_events kp attrName attr newVal rest
                       (resolve p (Stat primaryKey)) (tl fl) of
                  (q, e, rs, fl') \<Rightarrow> (q, e, v # rs, fl')))
         | Return False \<Rightarrow>
            (case updateByCursor_events kp attrName attr newVal rest p (tl fl) of
               (q, e, rs, fl') \<Rightarrow> (q, e, v # rs, fl'))))"

definition updateByCursor ::
  "DB \<Rightarrow> string \<Rightarrow> string \<Rightarrow> jsval \<Rightarrow> jsobject \<Rightarrow> (promise \<times> cursor_end \<times> DB) res"
where
  "updateByCursor this storeName attrName attr newVal =
     (case getCursor this storeName readwrite of
        Throw e \<Rightarrow> Throw e
      | Return st \<Rightarrow>
          (case updateByCursor_events (keyPath st) attrName attr newVal (records st)
                  Pending (db_faults this) of
             (p, e, rs, fl) \<Rightarrow>
               Return (p, e,
                 commit this storeName
                   (st\<lparr>records := (if e = Exhausted then rs else records st)\<rparr>) fl)))"

fun deleteByCursor_events ::
  "string \<Rightarrow> jsval \<Rightarrow> jsval list \<Rightarrow> promise \<Rightarrow> bool list
     \<Rightarrow> promise \<times> cursor_end \<times> jsval list \<times> bool list"
where
  "deleteByCursor_events attrName attr [] p fl =
     (if fault fl then (resolve p (Stat deleteFail), Errored, [], tl fl)
      else (resolve p (Stat noFound), Exhausted, [], tl fl))"
| "deleteByCursor_events attrName attr (v # rest) p fl =
     (if fault fl then (resolve p (Stat deleteFail), Errored, v # rest, tl fl)
      else
        (case cursor_match attrName attr v of
           Throw e \<Rightarrow> (p, HandlerThrew e, v # rest, tl fl)
         | Return True \<Rightarrow>
            (if fault (tl fl) then
               (resolve (resolve_with p (promisify req_error deleteSuccess deleteFail))
                  (Stat deleteFail),
                Errored, v # rest, tl (tl fl))
             else
               deleteByCursor_events attrName attr rest
                 (resolve_with p (promisify (req_success JUndefined) deleteSuccess deleteFail))
                 (tl (tl fl)))
         | Return False \<Rightarrow>
            (case deleteByCursor_events attrName attr rest p (tl fl) of
               (q, e, rs, fl') \<Rightarrow> (q, e, v # rs, fl'))))"

definition deleteByCursor ::
  "DB \<Rightarrow> string \<Rightarrow> string \<Rightarrow> jsval \<Rightarrow> (promise \<times> cursor_end \<times> DB) res"
where
  "deleteByCursor this storeName attrName attr =
     (case getCursor this storeName readwrite of
        Throw e \<Rightarrow> Throw e
      | Return st \<Rightarrow>
          (case deleteByCursor_events attrName attr (records st) Pending (db_faults this) of
             (p, e, rs, fl) \<Rightarrow>
               Return (p, e,
                 commit this storeName
                   (st\<lparr>records := (if e = Exhausted then rs else records st)\<rparr>) fl)))"

section \<open>Predicates used in the statements and proofs\<close>

text \<open>The tasks of the calls of \<open>set\<close> that \<open>setBatch\<close> awaits (its \<open>setList\<close>), each with the
  promise of its call.\<close>

definition set_tasks :: "DB \<Rightarrow> string \<Rightarrow> jsobject list \<Rightarrow> task list" where
  "set_tasks this storeName list =
     (case begin_all this storeName list of
        (tasks, this1) \<Rightarrow> fst (resume_all this1 storeName list tasks))"

fun fulfilled :: "promise \<Rightarrow> bool" where
  "fulfilled (Fulfilled v) = True"
| "fulfilled _ = False"

text \<open>What the two halves of \<open>set\<close> can leave behind: the synchronous half rejects with an
  exception only and awaits a fulfilled promise of data; a finished call rejects with an
  exception, with \<open>setFail\<close> or with \<open>updateFail\<close>.\<close>

fun begun :: "task \<Rightarrow> bool" where
  "begun (Done n (Rejected (Stat s))) = False"
| "begun (Done n p) = True"
| "begun (AwaitKeys k (Fulfilled (Data v))) = True"
| "begun (AwaitKeys k p) = False"

fun finished :: "task \<Rightarrow> bool" where
  "finished (Done n (Rejected (Stat s))) = (s = setFail \<or> s = updateFail)"
| "finished (Done n p) = True"
| "finished (AwaitKeys k p) = False"

text \<open>Keys that \<open>===\<close> compares by value.\<close>

definition primitive_key :: "jsval \<Rightarrow> bool" where
  "primitive_key k = (case k of JNum n \<Rightarrow> True | JStr s \<Rightarrow> True | _ \<Rightarrow> False)"

section \<open>Example data\<close>

text \<open>
  A host with an engine that holds no database yet, and the object
  \<open>new IndexDB('mydatabase', [{name: 'task', key: 'id', indexList: [...]}])\<close> on it. \<open>demo_db\<close>
  is that object once opened, with the given records in its store \<open>task\<close> and the given
  schedule of failures of the host.
\<close>

definition item :: "int \<Rightarrow> string \<Rightarrow> jsobject" where
  "item i t = [(''id'', JNum i), (''tag'', JStr t)]"

definition task_decl :: store_decl where
  "task_decl =
     \<lparr> store_name = ''task'', store_key = ''id'',
       indexList = Some [\<lparr> indexName = ''byTag'', decl_keyPath = ''tag'', unique = False \<rparr>] \<rparr>"

definition task_store :: "jsval list \<Rightarrow> objectStore" where
  "task_store rs =
     \<lparr> keyPath = ''id'', records = rs,
       indexes = [''byTag'' \<mapsto> \<lparr> ix_keyPath = ''tag'', ix_unique = False \<rparr>] \<rparr>"

definition fresh_engine :: factory where
  "fresh_engine = (\<lambda>n v. open_upgradeneeded \<lparr> stores = Map.empty, faults = [] \<rparr>)"

definition fresh_window :: window where
  "fresh_window = \<lparr> window_indexedDB = Some fresh_engine, window_webkitIndexedDB = None \<rparr>"

definition demo_db :: "jsval list \<Rightarrow> bool list \<Rightarrow> DB" where
  "demo_db rs fl =
     \<lparr> dataBase = Connection \<lparr> stores = [''task'' \<mapsto> task_store rs], faults = fl \<rparr>,
       dataBaseName = ''mydatabase'', dbVersion = 1, indexedDB = Some fresh_engine,
       storeList = [task_decl] \<rparr>"

definition no_engine :: window where
  "no_engine = \<lparr> window_indexedDB = None, window_webkitIndexedDB = None \<rparr>"

section \<open>Basic facts\<close>

lemmas eval_defs =
  demo_db_def task_store_def item_def getStore_def getCursor_def makeRequest_def commit_def
  db_faults_def fault_def hasOwnProperty_def owns_property_def cursor_match_def obj_get_def
  key_of_def store_keys_def
  promisify_def promisifyRes_def resolve_def reject_def resolve_with_def Let_def

lemma strict_eq_imp_eq: "strict_eq a b \<Longrightarrow> a = b"
  by (cases a; cases b) auto

lemma strict_eq_primitive: "primitive_key k \<Longrightarrow> strict_eq x k = (x = k)"
  by (cases k; cases x) (auto simp: primitive_key_def)

lemma indexOf_found: "indexOf xs v > -1 \<longleftrightarrow> (\<exists>x \<in> set xs. strict_eq x v)"
  by (induction xs) (auto simp: Let_def)

lemma getStore_Connection:
  "dataBase this = Connection d \<Longrightarrow> stores d storeName = Some st \<Longrightarrow>
     getStore this storeName m = Return st"
  by (simp add: getStore_def)

lemma commit_dataBase:
  "dataBase this = Connection d \<Longrightarrow>
     dataBase (commit this storeName st fl)
       = Connection (d\<lparr>stores := (stores d)(storeName \<mapsto> st), faults := fl\<rparr>)"
  by (simp add: commit_def)

lemma getStore_commit:
  "dataBase this = Connection d \<Longrightarrow>
     getStore (commit this storeName st fl) storeName m = Return st"
  by (simp add: commit_def getStore_def)

lemma db_faults_Connection: "dataBase this = Connection d \<Longrightarrow> db_faults this = faults d"
  by (simp add: db_faults_def)

lemma makeRequest_Connection:
  "dataBase this = Connection d \<Longrightarrow> stores d storeName = Some st \<Longrightarrow>
     makeRequest this storeName m a =
       (case native st m a (fault (faults d)) of
          Throw e \<Rightarrow> Throw e
        | Return (req, st') \<Rightarrow> Return (req, commit this storeName st' (tl (faults d))))"
  by (simp add: makeRequest_def getStore_Connection db_faults_def split: res.splits)

lemma promisifyRes_simps:
  "promisifyRes (req_success r) = Fulfilled (Data r)"
  "promisifyRes req_error = Fulfilled (Data JUndefined)"
  by (simp_all add: promisifyRes_def resolve_def)

lemma promisify_simps:
  "promisify (req_success r) s e = Fulfilled (Stat s)"
  "promisify req_error s e = Rejected (Stat e)"
  by (simp_all add: promisify_def resolve_def reject_def)

lemma update_Connection:
  assumes "dataBase this = Connection d" and "stores d storeName = Some st"
  shows "update this storeName v =
     (case native st readwrite (Put (JObj v)) (fault (faults d)) of
        Throw e \<Rightarrow> Throw e
      | Return (req, st') \<Rightarrow>
          Return (promisify req updateSuccess updateFail,
                  commit this storeName st' (tl (faults d))))"
  using assms by (simp add: update_def makeRequest_Connection split: res.splits)

lemma update_status:
  "update this storeName v = Return (q, t) \<Longrightarrow>
     q = Fulfilled (Stat updateSuccess) \<or> q = Rejected (Stat updateFail)"
  by (auto simp: update_def promisify_def resolve_def reject_def
      split: res.splits request.splits)

lemma lookup_key_None:
  "lookup_key kp rs k = None \<longleftrightarrow> k \<notin> set (map (\<lambda>r. get_prop r kp) rs)"
  by (induction rs) auto

lemma lookup_insert:
  "lookup_key kp rs (get_prop v kp) = None \<Longrightarrow>
     lookup_key kp (insert_record kp v rs) (get_prop v kp) = Some v"
  by (induction rs) (auto split: if_splits)

lemma store_keys_replace:
  "map (\<lambda>r. get_prop r kp) (replace_record kp v rs) = map (\<lambda>r. get_prop r kp) rs"
  by (induction rs) (auto simp: replace_record_def)

lemma lookup_replace:
  "lookup_key kp rs (get_prop v kp) \<noteq> None \<Longrightarrow>
     lookup_key kp (replace_record kp v rs) (get_prop v kp) = Some v"
  by (induction rs) (auto simp: replace_record_def)

text \<open>\<open>set\<close> on a connected store, for a value that has the key field: the \<open>getAllKeys\<close> request
  uses the first fault flag, and the write that follows uses the second.\<close>

lemma set_db_Connection:
  assumes "dataBase this = Connection d"
    and "stores d storeName = Some st"
    and "hasOwnProperty v (keyPath st) = Return True"
  shows "set_db this storeName v =
     (if fault (faults d) then (Rejected (Exn TypeError), commit this storeName st (tl (faults d)))
      else if indexOf (store_keys st) (obj_get v (keyPath st)) > -1 then
        (case update (commit this storeName st (tl (faults d))) storeName v of
           Throw e \<Rightarrow> (Rejected (Exn e), commit this storeName st (tl (faults d)))
         | Return (q, this2) \<Rightarrow> (q, this2))
      else
        (case makeRequest (commit this storeName st (tl (faults d))) storeName readwrite
                (Add (JObj v)) of
           Throw e \<Rightarrow> (Rejected (Exn e), commit this storeName st (tl (faults d)))
         | Return (req, this2) \<Rightarrow> (promisify req setSuccess setFail, this2)))"
  using assms
  by (simp add: set_db_def getStore_Connection getAllKeys_def makeRequest_Connection
      promisifyRes_simps Let_def)

section \<open>Opening a connection\<close>

text \<open>When the native open request errors, the promise of \<open>open\<close> is rejected with
  \<open>openFail\<close> and the object is left as it was.\<close>

lemma open_request_error:
  "truthy_handle (dataBase this) \<Longrightarrow> indexedDB this = Some f \<Longrightarrow>
     f (dataBaseName this) (dbVersion this) = open_error \<Longrightarrow>
     open_db ci this = (Rejected (Stat openFail), this)"
  by (simp add: open_db_def reject_def)

text \<open>On a host that holds no database yet, \<open>open\<close> of the example object creates the store
  and its index and resolves with the object.\<close>

lemma IndexDB_open_fresh:
  "IndexDB_open (constructor fresh_window ''mydatabase'' [task_decl])
     = (Fulfilled This, demo_db [] [])"
  by (simp add: IndexDB_open_def open_db_def constructor_def fresh_window_def fresh_engine_def
      task_decl_def demo_db_def task_store_def resolve_def)

text \<open>
  C1. On a host without a storage engine (neither \<open>window.indexedDB\<close> nor
  \<open>window.webkitIndexedDB\<close>), \<open>open\<close> on a constructed object does not give
  \<open>compatibleFail\<close>: the guard tests \<open>_dataBase\<close>, which the constructor set to \<open>{}\<close> and
  which is truthy, so the call goes on to \<open>this._indexedDB.open\<close> on \<open>undefined\<close>; the
  \<open>TypeError\<close> rejects the promise. No object made by the constructor, on any host, gets
  \<open>compatibleFail\<close> from \<open>open\<close>. The other half of the claim holds: when the host has an
  engine and its open request errors, the promise is rejected with \<open>openFail\<close>.
\<close>

theorem open_without_engine:
  "open_db ci (constructor no_engine name sl)
     = (Rejected (Exn TypeError), constructor no_engine name sl)
   \<and> fst (open_db ci (constructor w name sl)) \<noteq> Fulfilled (Stat compatibleFail)
   \<and> fst (open_db ci (constructor w name sl)) \<noteq> Rejected (Stat compatibleFail)
   \<and> (indexedDB (constructor w name sl) = Some f \<and> f name 1 = open_error
       \<longrightarrow> open_db ci (constructor w name sl)
             = (Rejected (Stat openFail), constructor w name sl))"
proof -
  have "indexedDB (constructor w name sl) = Some f \<and> f name 1 = open_error
       \<longrightarrow> open_db ci (constructor w name sl)
             = (Rejected (Stat openFail), constructor w name sl)"
    by (auto simp: constructor_def intro!: open_request_error)
  then show ?thesis
    by (simp add: open_db_def constructor_def no_engine_def reject_def resolve_def
        split: option.splits open_response.splits res.splits)
qed

theorem open_without_engine_witness:
  "DB_open (constructor no_engine ''mydatabase'' [])
     = (Rejected (Exn TypeError), constructor no_engine ''mydatabase'' [])
   \<and> IndexDB_open (constructor no_engine ''mydatabase'' [])
     = (Rejected (Exn TypeError), constructor no_engine ''mydatabase'' [])
   \<and> IndexDB_open
       (constructor \<lparr> window_indexedDB = Some (\<lambda>n v. open_error),
                      window_webkitIndexedDB = None \<rparr> ''mydatabase'' [])
     = (Rejected (Stat openFail),
        constructor \<lparr> window_indexedDB = Some (\<lambda>n v. open_error),
                      window_webkitIndexedDB = None \<rparr> ''mydatabase'' [])"
  using open_without_engine [where ci = "\<lambda>il store. Return store" and name = "''mydatabase''"
      and sl = "[]" and w = no_engine]
    open_without_engine [where ci = createIndex and name = "''mydatabase''"
      and sl = "[]" and f = "\<lambda>n v. open_error"
      and w = "\<lparr> window_indexedDB = Some (\<lambda>n v. open_error),
                  window_webkitIndexedDB = None \<rparr>"]
  by (simp add: DB_open_def IndexDB_open_def constructor_def)

section \<open>\<open>setBatch\<close>\<close>

text \<open>\<open>set\<close> is its synchronous half followed by its continuation: the two halves that
  \<open>setBatch\<close> interleaves make up the function as it is written.\<close>

lemma set_db_split:
  "set_db this s v =
     (case set_begin this s v of
        (t, this1) \<Rightarrow>
          (case set_resume this1 s v t of (t', this2) \<Rightarrow> (task_promise t', this2)))"
  by (auto simp: set_db_def set_begin_def Let_def
      split: res.splits bool.splits prod.splits promise.splits settled.splits jsval.splits)

lemma set_tasks_single: "map task_promise (set_tasks this s [v]) = [fst (set_db this s v)]"
  by (simp add: set_tasks_def set_db_split case_prod_beta)

lemma begin_all_length: "length (fst (begin_all this s l)) = length l"
  by (induction l arbitrary: this) (simp_all add: case_prod_beta)

lemma resume_all_length:
  "length ts = length l \<Longrightarrow> length (fst (resume_all this s l ts)) = length l"
proof (induction l arbitrary: this ts)
  case Nil
  then show ?case by simp
next
  case (Cons v l)
  then obtain t ts' where "ts = t # ts'" by (cases ts) auto
  with Cons show ?case by (simp add: case_prod_beta)
qed

lemma set_tasks_length: "length (set_tasks this s l) = length l"
  by (simp add: set_tasks_def case_prod_beta resume_all_length begin_all_length)

lemma set_begin_begun: "begun (fst (set_begin this s v))"
  by (auto simp: set_begin_def getAllKeys_def Let_def promisifyRes_def resolve_def
      split: res.splits bool.splits prod.splits request.splits)

lemma set_resume_finished: "begun t \<Longrightarrow> finished (fst (set_resume this s v t))"
proof (induction t rule: begun.induct)
  case (3 k v')
  then show ?case
    by (cases v')
       (auto simp: promisify_def resolve_def reject_def
          split: res.splits prod.splits request.splits dest: update_status)
qed auto

lemma begin_all_begun: "list_all begun (fst (begin_all this s l))"
proof (induction l arbitrary: this)
  case Nil
  then show ?case by simp
next
  case (Cons v l)
  have "begun (fst (set_begin this s v))" by (rule set_begin_begun)
  with Cons show ?case by (simp add: case_prod_beta)
qed

lemma resume_all_finished:
  "list_all begun ts \<Longrightarrow> list_all finished (fst (resume_all this s l ts))"
proof (induction this s l ts rule: resume_all.induct)
  case (1 this s v l t ts)
  then show ?case
    by (simp add: case_prod_beta set_resume_finished) (metis prod.collapse)
qed auto

lemma set_tasks_finished: "list_all finished (set_tasks this s l)"
  by (simp add: set_tasks_def case_prod_beta resume_all_finished begin_all_begun)

lemma first_rejection_SomeD:
  "first_rejection ts = Some r \<Longrightarrow> \<exists>t \<in> set ts. \<exists>n. rejection t = Some (n, r)"
proof -
  assume a: "first_rejection ts = Some r"
  let ?rs = "List.map_filter rejection ts"
  let ?l = "filter (\<lambda>(n, r). n = 0) ?rs @ filter (\<lambda>(n, r). n = 1) ?rs
           @ filter (\<lambda>(n, r). 2 \<le> n) ?rs"
  from a obtain n others where "?l = (n, r) # others"
    by (auto simp: first_rejection_def Let_def split: list.splits)
  then have "(n, r) \<in> set ?l" by simp
  then have "(n, r) \<in> set ?rs" by auto
  then obtain t where "t \<in> set ts" and "rejection t = Some (n, r)"
    by (auto simp: List.map_filter_def)
  then show ?thesis by blast
qed

lemma fulfilment_task: "fulfilment t \<noteq> None \<longleftrightarrow> fulfilled (task_promise t)"
  by (cases t rule: fulfilment.cases) auto

lemma map_filter_length:
  "\<forall>t \<in> set ts. f t \<noteq> None \<Longrightarrow> length (List.map_filter f ts) = length ts"
  by (induction ts) (auto simp: List.map_filter_def)

lemma setBatch_set_tasks:
  "fst (setBatch this s l) =
     (case await_all (set_tasks this s l) of
        Values resList \<Rightarrow>
          Fulfilled (Stat (if length resList = length l then setBatchSuccess else setBatchFail))
      | Thrown r \<Rightarrow> Rejected r
      | Never \<Rightarrow> Pending)"
  by (simp add: setBatch_def set_tasks_def case_prod_beta split: awaited.splits)

text \<open>
  On every input: the promise of \<open>setBatch\<close> is never settled with \<open>setBatchFail\<close>, and it is
  fulfilled with \<open>setBatchSuccess\<close> exactly when the promise of every call of \<open>set\<close> is
  fulfilled.
\<close>

lemma setBatch_outcomes:
  "fst (setBatch this s l) \<noteq> Fulfilled (Stat setBatchFail)
   \<and> fst (setBatch this s l) \<noteq> Rejected (Stat setBatchFail)
   \<and> ((fst (setBatch this s l) = Fulfilled (Stat setBatchSuccess))
        = list_all (\<lambda>t. fulfilled (task_promise t)) (set_tasks this s l))"
proof -
  let ?ts = "set_tasks this s l"
  show ?thesis
  proof (cases "await_all ?ts")
    case (Values resList)
    then have all: "\<forall>t \<in> set ?ts. fulfilment t \<noteq> None"
      and res: "resList = List.map_filter fulfilment ?ts"
      by (auto simp: await_all_def split: option.splits if_splits)
    have "length resList = length l"
      using map_filter_length [OF all] res by (simp add: set_tasks_length)
    moreover from all have "\<forall>t \<in> set ?ts. fulfilled (task_promise t)"
      using fulfilment_task by blast
    ultimately show ?thesis
      using Values by (simp add: setBatch_set_tasks list_all_iff)
  next
    case (Thrown r)
    then have "first_rejection ?ts = Some r"
      by (auto simp: await_all_def split: option.splits if_splits)
    then obtain t n where t: "t \<in> set ?ts" and rj: "rejection t = Some (n, r)"
      by (blast dest: first_rejection_SomeD)
    have "finished t"
      using set_tasks_finished [of this s l] t by (simp add: list_all_iff)
    with rj have "r \<noteq> Stat setBatchFail"
      by (cases t rule: finished.cases) auto
    moreover from rj have "\<not> fulfilled (task_promise t)"
      by (cases t rule: rejection.cases) auto
    ultimately show ?thesis
      using Thrown t by (auto simp: setBatch_set_tasks list_all_iff)
  next
    case Never
    then have "\<not> (\<forall>t \<in> set ?ts. fulfilment t \<noteq> None)"
      by (auto simp: await_all_def split: option.splits if_splits)
    then have "\<not> (\<forall>t \<in> set ?ts. fulfilled (task_promise t))"
      using fulfilment_task by blast
    with Never show ?thesis
      by (simp add: setBatch_set_tasks list_all_iff)
  qed
qed

text \<open>
  C2. A batch of two records with the same new key, on an empty store and a host that never
  fails: both calls of \<open>set\<close> read the keys before either writes, both issue \<open>add\<close>, and the
  second \<open>add\<close> fails. The promise of \<open>setBatch\<close> is rejected with the status \<open>setFail\<close> of
  that call, not settled with \<open>setBatchFail\<close>; the first record is stored. On every input
  the promise is never settled with \<open>setBatchFail\<close>; the first half of the claim holds: it
  is fulfilled with \<open>setBatchSuccess\<close> exactly when every call of \<open>set\<close> is fulfilled.
\<close>

theorem setBatch_failing_set:
  "setBatch (demo_db [] []) ''task'' [item 1 ''a'', item 1 ''b'']
     = (Rejected (Stat setFail), demo_db [JObj (item 1 ''a'')] [])
   \<and> fst (setBatch this s l) \<noteq> Fulfilled (Stat setBatchFail)
   \<and> fst (setBatch this s l) \<noteq> Rejected (Stat setBatchFail)
   \<and> ((fst (setBatch this s l) = Fulfilled (Stat setBatchSuccess))
        = list_all (\<lambda>t. fulfilled (task_promise t)) (set_tasks this s l))"
proof -
  have "setBatch (demo_db [] []) ''task'' [item 1 ''a'', item 1 ''b'']
     = (Rejected (Stat setFail), demo_db [JObj (item 1 ''a'')] [])"
    by (simp add: setBatch_def set_begin_def getAllKeys_def update_def await_all_def
        first_rejection_def List.map_filter_def eval_defs)
  with setBatch_outcomes [of this s l] show ?thesis by blast
qed

theorem setBatch_failing_set_witness:
  "fst (setBatch (demo_db [] [False, True]) ''task'' [item 1 ''a''])
     = Rejected (Stat setFail)
   \<and> map task_promise (set_tasks (demo_db [] [False, True]) ''task'' [item 1 ''a''])
     = [Rejected (Stat setFail)]
   \<and> fst (setBatch (demo_db [] []) ''task'' [item 1 ''a'', item 2 ''b''])
     = Fulfilled (Stat setBatchSuccess)
   \<and> map task_promise (set_tasks (demo_db [] []) ''task'' [item 1 ''a'', item 2 ''b''])
     = [Fulfilled (Stat setSuccess), Fulfilled (Stat setSuccess)]"
  using setBatch_failing_set [where this = "demo_db [] [False, True]" and s = "''task''"
      and l = "[item 1 ''a'']"]
  by (simp add: setBatch_def set_tasks_def set_begin_def getAllKeys_def update_def await_all_def
      first_rejection_def List.map_filter_def eval_defs)

section \<open>\<open>set\<close> of a value without the key field\<close>




section \<open>\<open>set\<close> of a record whose key is present\<close>

text \<open>
  C4. The store holds a record whose key is the array \<open>[1]\<close> and \<open>set\<close> is called with a record
  of the same key. \<open>keys.indexOf\<close> compares with \<open>===\<close>, which never finds an array among the
  keys read back from the engine, so \<open>set\<close> issues \<open>add\<close> instead of delegating to \<open>update\<close>;
  the engine refuses the duplicate key and the promise is rejected with \<open>setFail\<close>. The record
  in the store is not overwritten.
\<close>

theorem set_existing_array_key:
  "set_db (demo_db [JObj [(''id'', JArr [JNum 1]), (''tag'', JStr ''a'')]] []) ''task''
       [(''id'', JArr [JNum 1]), (''tag'', JStr ''b'')]
     = (Rejected (Stat setFail),
        demo_db [JObj [(''id'', JArr [JNum 1]), (''tag'', JStr ''a'')]] [])"
  by (simp add: set_db_def getAllKeys_def update_def eval_defs)

theorem set_existing_array_key_witness:
  "fst (set_db (demo_db [JObj [(''id'', JArr [JNum 1]), (''tag'', JStr ''a'')]] []) ''task''
       [(''id'', JArr [JNum 1]), (''tag'', JStr ''b'')]) \<noteq> Fulfilled (Stat updateSuccess)
   \<and> update (demo_db [JObj [(''id'', JArr [JNum 1]), (''tag'', JStr ''a'')]] []) ''task''
       [(''id'', JArr [JNum 1]), (''tag'', JStr ''b'')]
     = Return (Fulfilled (Stat updateSuccess),
               demo_db [JObj [(''id'', JArr [JNum 1]), (''tag'', JStr ''b'')]] [])"
  using set_existing_array_key
  by (simp add: update_def replace_record_def eval_defs)

text \<open>
  For a key that \<open>===\<close> compares by value (a number or a string) the delegation works: when
  the key is present and the \<open>getAllKeys\<close> request succeeds, \<open>set\<close> is \<open>update\<close> on the state
  that request left. The \<open>put\<close> replaces the record of that key, the keys of the store stay
  as they are (no duplicate), and the promise carries the status of \<open>update\<close>:
  \<open>updateSuccess\<close>, or \<open>updateFail\<close> when the host fails the \<open>put\<close>.
\<close>

theorem set_existing_primitive_key:
  assumes "dataBase this = Connection d"
    and "stores d storeName = Some st"
    and "hasOwnProperty v (keyPath st) = Return True"
    and "obj_get v (keyPath st) \<in> set (store_keys st)"
    and "primitive_key (obj_get v (keyPath st))"
    and "\<not> fault (faults d)"
  shows "set_db this storeName v =
           (case update (commit this storeName st (tl (faults d))) storeName v of
              Throw e \<Rightarrow> (Rejected (Exn e), commit this storeName st (tl (faults d)))
            | Return (q, this2) \<Rightarrow> (q, this2))
       \<and> set_db this storeName v =
           (if fault (tl (faults d))
            then (Rejected (Stat updateFail), commit this storeName st (tl (tl (faults d))))
            else (Fulfilled (Stat updateSuccess),
                  commit this storeName
                    (st\<lparr>records := replace_record (keyPath st) (JObj v) (records st)\<rparr>)
                    (tl (tl (faults d)))))
       \<and> map (\<lambda>r. get_prop r (keyPath st)) (replace_record (keyPath st) (JObj v) (records st))
           = store_keys st
       \<and> lookup_key (keyPath st) (replace_record (keyPath st) (JObj v) (records st))
           (obj_get v (keyPath st)) = Some (JObj v)"
proof -
  let ?kp = "keyPath st"
  let ?k = "obj_get v ?kp"
  let ?this1 = "commit this storeName st (tl (faults d))"
  let ?d1 = "d\<lparr>stores := (stores d)(storeName \<mapsto> st), faults := tl (faults d)\<rparr>"
  have c1: "dataBase ?this1 = Connection ?d1"
    using assms(1) by (rule commit_dataBase)
  have s1: "stores ?d1 storeName = Some st" by simp
  have idx: "indexOf (store_keys st) ?k > -1"
    using assms(4,5) by (auto simp: indexOf_found strict_eq_primitive)
  have first: "set_db this storeName v =
           (case update ?this1 storeName v of
              Throw e \<Rightarrow> (Rejected (Exn e), ?this1)
            | Return (q, this2) \<Rightarrow> (q, this2))"
    using set_db_Connection [OF assms(1,2,3)] assms(6) idx by simp
  have valid: "valid_key ?k"
    using assms(5) by (cases ?k) (auto simp: primitive_key_def)
  have key: "key_of ?kp (JObj v) = Some ?k"
    using assms(3) valid by (simp add: key_of_def hasOwnProperty_def split: if_splits)
  have present: "lookup_key ?kp (records st) (get_prop (JObj v) ?kp) \<noteq> None"
    using assms(4) by (simp add: lookup_key_None store_keys_def)
  have commit2: "\<And>st' fl. commit ?this1 storeName st' fl = commit this storeName st' fl"
    using assms(1) by (simp add: commit_def)
  have second: "set_db this storeName v =
           (if fault (tl (faults d))
            then (Rejected (Stat updateFail), commit this storeName st (tl (tl (faults d))))
            else (Fulfilled (Stat updateSuccess),
                  commit this storeName
                    (st\<lparr>records := replace_record ?kp (JObj v) (records st)\<rparr>)
                    (tl (tl (faults d)))))"
    unfolding first using key present
    by (simp add: update_Connection [OF c1 s1] promisify_simps commit2)
  have keys: "map (\<lambda>r. get_prop r ?kp) (replace_record ?kp (JObj v) (records st)) = store_keys st"
    by (simp add: store_keys_replace store_keys_def)
  have look: "lookup_key ?kp (replace_record ?kp (JObj v) (records st)) ?k = Some (JObj v)"
    using lookup_replace [OF present] by simp
  from first second keys look show ?thesis by blast
qed

theorem set_existing_primitive_key_witness:
  "obj_get (item 1 ''b'') ''id'' \<in> set (store_keys (task_store [JObj (item 1 ''a'')]))
   \<and> primitive_key (obj_get (item 1 ''b'') ''id'')
   \<and> set_db (demo_db [JObj (item 1 ''a'')] []) ''task'' (item 1 ''b'')
       = (Fulfilled (Stat updateSuccess), demo_db [JObj (item 1 ''b'')] [])
   \<and> code updateSuccess = 106"
  using set_existing_primitive_key [where this = "demo_db [JObj (item 1 ''a'')] []"
      and d = "\<lparr> stores = [''task'' \<mapsto> task_store [JObj (item 1 ''a'')]], faults = [] \<rparr>"
      and storeName = "''task''" and st = "task_store [JObj (item 1 ''a'')]"
      and v = "item 1 ''b''"]
  by (simp add: set_db_def getAllKeys_def update_def primitive_key_def replace_record_def
      eval_defs)

section \<open>\<open>set\<close> followed by \<open>get\<close>\<close>

text \<open>
  C5. For a record whose key is not among the keys of the store: when \<open>set\<close> succeeded (its
  promise is fulfilled with \<open>setSuccess\<close>) and the host does not fail the next request, \<open>get\<close>
  with the key of the record returns a promise fulfilled with that record.
\<close>

theorem set_then_get:
  assumes "dataBase this = Connection d"
    and "stores d storeName = Some st"
    and "obj_get v (keyPath st) \<notin> set (store_keys st)"
    and "set_db this storeName v = (Fulfilled (Stat setSuccess), this')"
    and "\<not> fault (db_faults this')"
  shows "\<exists>this''. get this' storeName (obj_get v (keyPath st))
            = Return (Fulfilled (Data (JObj v)), this'')"
proof -
  let ?kp = "keyPath st"
  let ?k = "obj_get v ?kp"
  let ?this1 = "commit this storeName st (tl (faults d))"
  let ?d1 = "d\<lparr>stores := (stores d)(storeName \<mapsto> st), faults := tl (faults d)\<rparr>"
  have own: "hasOwnProperty v ?kp = Return True"
    using assms(1,2,4)
    by (cases "hasOwnProperty v ?kp" rule: res.exhaust)
       (auto simp: set_db_def getStore_Connection Let_def split: bool.splits)
  have c1: "dataBase ?this1 = Connection ?d1"
    using assms(1) by (rule commit_dataBase)
  have s1: "stores ?d1 storeName = Some st" by simp
  note sd = set_db_Connection [OF assms(1,2) own]
  have nf: "\<not> fault (faults d)"
    using assms(4) sd by (auto split: if_splits)
  have add_path: "\<not> indexOf (store_keys st) ?k > -1"
  proof
    assume "indexOf (store_keys st) ?k > -1"
    with sd nf assms(4) have
      "(case update ?this1 storeName v of
          Throw e \<Rightarrow> (Rejected (Exn e), ?this1)
        | Return (q, this2) \<Rightarrow> (q, this2)) = (Fulfilled (Stat setSuccess), this')"
      by simp
    then show False
      by (auto split: res.splits dest: update_status)
  qed
  with sd nf assms(4) have req:
    "(case makeRequest ?this1 storeName readwrite (Add (JObj v)) of
        Throw e \<Rightarrow> (Rejected (Exn e), ?this1)
      | Return (req, this2) \<Rightarrow> (promisify req setSuccess setFail, this2))
     = (Fulfilled (Stat setSuccess), this')"
    by simp
  let ?st' = "st\<lparr>records := insert_record ?kp (JObj v) (records st)\<rparr>"
  have key: "key_of ?kp (JObj v) \<noteq> None"
    and this': "this' = commit ?this1 storeName ?st' (tl (tl (faults d)))"
    using req
    by (auto simp: makeRequest_Connection [OF c1 s1] promisify_simps
        split: res.splits if_splits)
  have valid: "valid_key ?k"
    using key by (auto simp: key_of_def split: if_splits)
  let ?d2 = "?d1\<lparr>stores := (stores ?d1)(storeName \<mapsto> ?st'), faults := tl (tl (faults d))\<rparr>"
  have c2: "dataBase this' = Connection ?d2"
    unfolding this' using c1 by (rule commit_dataBase)
  have s2: "stores ?d2 storeName = Some ?st'" by simp
  have nf2: "\<not> fault (faults ?d2)"
    using assms(5) c2 by (simp add: db_faults_def)
  have absent: "lookup_key ?kp (records st) (get_prop (JObj v) ?kp) = None"
    using assms(3) by (simp add: lookup_key_None store_keys_def)
  have found: "lookup_key ?kp (records ?st') ?k = Some (JObj v)"
    using lookup_insert [OF absent] by simp
  show ?thesis
    using valid nf2 found
    by (simp add: get_def makeRequest_Connection [OF c2 s2] promisifyRes_simps)
qed

theorem set_then_get_witness:
  "obj_get (item 2 ''b'') ''id'' \<notin> set (store_keys (task_store [JObj (item 1 ''a'')]))
   \<and> set_db (demo_db [JObj (item 1 ''a'')] []) ''task'' (item 2 ''b'')
       = (Fulfilled (Stat setSuccess), demo_db [JObj (item 1 ''a''), JObj (item 2 ''b'')] [])
   \<and> get (demo_db [JObj (item 1 ''a''), JObj (item 2 ''b'')] []) ''task'' (JNum 2)
       = Return (Fulfilled (Data (JObj (item 2 ''b''))),
                 demo_db [JObj (item 1 ''a''), JObj (item 2 ''b'')] [])"
proof -
  have s: "set_db (demo_db [JObj (item 1 ''a'')] []) ''task'' (item 2 ''b'')
       = (Fulfilled (Stat setSuccess), demo_db [JObj (item 1 ''a''), JObj (item 2 ''b'')] [])"
    by (simp add: set_db_def getAllKeys_def update_def eval_defs)
  have a: "obj_get (item 2 ''b'') (keyPath (task_store [JObj (item 1 ''a'')]))
      \<notin> set (store_keys (task_store [JObj (item 1 ''a'')]))"
    by (simp add: eval_defs)
  have f: "\<not> fault (db_faults (demo_db [JObj (item 1 ''a''), JObj (item 2 ''b'')] []))"
    by (simp add: eval_defs)
  show ?thesis
    using set_then_get [where this = "demo_db [JObj (item 1 ''a'')] []"
      and d = "\<lparr> stores = [''task'' \<mapsto> task_store [JObj (item 1 ''a'')]], faults = [] \<rparr>"
      and storeName = "''task''" and st = "task_store [JObj (item 1 ''a'')]"
      and v = "item 2 ''b''", OF _ _ a s f]
    by (simp add: set_db_def getAllKeys_def update_def get_def eval_defs)
qed

section \<open>The data-fetch operations\<close>





section \<open>The cursor loops\<close>

text \<open>The test of the handlers on an object: it throws exactly when the object has an own
  property named \<open>hasOwnProperty\<close>.\<close>

lemma cursor_match_obj:
  "cursor_match an a (JObj obj) =
     (if owns_property obj ''hasOwnProperty'' then Throw TypeError
      else Return (owns_property obj an \<and> strict_eq (obj_get obj an) a))"
  by (simp add: cursor_match_def hasOwnProperty_def)


text \<open>Once the promise of a cursor call is settled, no later event changes it.\<close>

lemma settled_stays:
  "p \<noteq> Pending \<Longrightarrow> fst (updateByCursor_events kp an a nv rs p fl) = p"
  by (induction rs arbitrary: p fl)
     (simp_all add: resolve_def resolve_with_def case_prod_beta split: res.splits bool.splits)

lemma getAllByCursor_events_result:
  "getAllByCursor_events rs vals Pending fl =
     (if True \<in> set (take (Suc (length rs)) fl)
      then (Fulfilled (Data JUndefined), Errored, snd (snd (getAllByCursor_events rs vals Pending fl)))
      else (Fulfilled (Data (JArr (vals @ rs))), Exhausted, drop (Suc (length rs)) fl))"
proof (induction rs arbitrary: vals fl)
  case Nil
  then show ?case by (cases fl) (auto simp: resolve_def fault_def)
next
  case (Cons r rs)
  show ?case
  proof (cases fl)
    case Nil
    with Cons.IH [of "vals @ [r]" "[]"] show ?thesis by (simp add: fault_def)
  next
    case (Cons b bs)
    with Cons.IH [of "vals @ [r]" bs] show ?thesis by (auto simp: fault_def resolve_def)
  qed
qed



lemma update_events_error_before_match:
  "i \<le> length rs \<Longrightarrow>
   \<forall>r \<in> set (take i rs). cursor_match an a r = Return False \<Longrightarrow>
   \<exists>rs'. updateByCursor_events kp an a nv rs p (replicate i False @ True # fl) =
     (resolve p (Stat idx_updateFail), Errored, rs', fl)"
proof (induction rs arbitrary: i)
  case Nil
  then show ?case by (simp add: fault_def)
next
  case (Cons r rs)
  show ?case
  proof (cases i)
    case 0
    then show ?thesis by (simp add: fault_def)
  next
    case (Suc j)
    with Cons.prems have j: "j \<le> length rs"
      and nm: "cursor_match an a r = Return False"
      and rest: "\<forall>r \<in> set (take j rs). cursor_match an a r = Return False"
      by auto
    from Cons.IH [OF j rest] obtain rs' where
      "updateByCursor_events kp an a nv rs p (replicate j False @ True # fl) =
         (resolve p (Stat idx_updateFail), Errored, rs', fl)" by blast
    with nm Suc show ?thesis by (auto simp: fault_def)
  qed
qed

lemma delete_events_error_before_match:
  "i \<le> length rs \<Longrightarrow>
   \<forall>r \<in> set (take i rs). cursor_match an a r = Return False \<Longrightarrow>
   \<exists>rs'. deleteByCursor_events an a rs p (replicate i False @ True # fl) =
     (resolve p (Stat deleteFail), Errored, rs', fl)"
proof (induction rs arbitrary: i)
  case Nil
  then show ?case by (simp add: fault_def)
next
  case (Cons r rs)
  show ?case
  proof (cases i)
    case 0
    then show ?thesis by (simp add: fault_def)
  next
    case (Suc j)
    with Cons.prems have j: "j \<le> length rs"
      and nm: "cursor_match an a r = Return False"
      and rest: "\<forall>r \<in> set (take j rs). cursor_match an a r = Return False"
      by auto
    from Cons.IH [OF j rest] obtain rs' where
      "deleteByCursor_events an a rs p (replicate j False @ True # fl) =
         (resolve p (Stat deleteFail), Errored, rs', fl)" by blast
    with nm Suc show ?thesis by (auto simp: fault_def)
  qed
qed

lemma getAll_events_error:
  "i \<le> length rs \<Longrightarrow>
   getAllByCursor_events rs vals p (replicate i False @ True # fl) =
     (resolve p (Data JUndefined), Errored, fl)"
proof (induction rs arbitrary: i vals)
  case Nil
  then show ?case by (simp add: fault_def)
next
  case (Cons r rs)
  then show ?case by (cases i) (auto simp: fault_def)
qed

lemma update_events_first_match:
  "\<forall>x \<in> set pre. cursor_match an a x = Return False \<Longrightarrow>
   True \<notin> set (take (Suc (length pre)) fl) \<Longrightarrow>
   cursor_match an a r = Return True \<Longrightarrow>
   \<not> strict_eq (get_prop r kp) (obj_get nv kp) \<Longrightarrow>
   fst (updateByCursor_events kp an a nv (pre @ r # post) Pending fl) = Fulfilled (Stat primaryKey)"
proof (induction pre arbitrary: fl)
  case Nil
  then have "\<not> fault fl" by (cases fl) (auto simp: fault_def)
  with Nil show ?case
    by (simp add: case_prod_beta settled_stays resolve_def)
next
  case (Cons x pre)
  then have nf: "\<not> fault fl" by (cases fl) (auto simp: fault_def)
  from Cons.prems have "True \<notin> set (take (Suc (length pre)) (tl fl))"
    by (cases fl) auto
  with Cons have "fst (updateByCursor_events kp an a nv (pre @ r # post) Pending (tl fl))
      = Fulfilled (Stat primaryKey)" by simp
  with Cons.prems nf show ?case by (auto simp: case_prod_beta)
qed

lemma update_events_length:
  "updateByCursor_events kp an a nv rs p fl = (q, e, rs', fl') \<Longrightarrow> length rs' = length rs"
  by (induction rs arbitrary: p fl q e rs' fl')
     (auto split: if_splits prod.splits res.splits bool.splits)

lemma update_events_unmodified:
  "updateByCursor_events kp an a nv rs p fl = (q, e, rs', fl') \<Longrightarrow>
   i < length rs \<Longrightarrow> \<not> strict_eq (get_prop (rs ! i) kp) (obj_get nv kp) \<Longrightarrow>
   rs' ! i = rs ! i"
proof (induction rs arbitrary: p fl q e rs' fl' i)
  case Nil
  then show ?case by simp
next
  case (Cons r rs)
  then show ?case
    by (cases i) (auto split: if_splits prod.splits res.splits bool.splits)
qed

section \<open>\<open>updateByCursor\<close> and the primary key\<close>

text \<open>
  As the claim C7 is written it fails: two records match, the first has the key of \<open>newVal\<close>
  and is updated, which settles the promise; the second has another key, and the
  \<open>resolve(primaryKey)\<close> made for it comes too late. The promise is fulfilled with
  \<open>updateSuccess\<close> of the index module (the second record is left as it was).
\<close>

theorem updateByCursor_second_match_counterexample:
  "cursor_match ''tag'' (JStr ''a'') (JObj (item 2 ''a'')) = Return True
   \<and> get_prop (JObj (item 2 ''a'')) ''id'' \<noteq> obj_get (item 1 ''b'') ''id''
   \<and> updateByCursor (demo_db [JObj (item 1 ''a''), JObj (item 2 ''a'')] []) ''task'' ''tag''
       (JStr ''a'') (item 1 ''b'')
     = Return (Fulfilled (Stat idx_updateSuccess), Exhausted,
               demo_db [JObj (item 1 ''b''), JObj (item 2 ''a'')] [])
   \<and> Fulfilled (Stat idx_updateSuccess) \<noteq> Fulfilled (Stat primaryKey)"
  by (simp add: updateByCursor_def eval_defs)

text \<open>
  C7, amended. Let \<open>r\<close> be a record of the store that matches (the test
  \<open>value.hasOwnProperty(attrName) && value[attrName] === attr\<close> gives true) and whose primary
  key differs from that of \<open>newVal\<close>. Then \<open>updateByCursor\<close> returns, and after it \<open>r\<close> is at
  its place in the store, unmodified. When moreover \<open>r\<close> is the first record that matches, the
  test gives false, without an exception, on every record before it, and the cursor reaches
  \<open>r\<close> without an error event, the promise is fulfilled with \<open>primaryKey\<close>.
\<close>

theorem updateByCursor_primary_key:
  assumes "dataBase this = Connection d"
    and "stores d storeName = Some st"
    and "records st = pre @ r # post"
    and "cursor_match attrName attr r = Return True"
    and "get_prop r (keyPath st) \<noteq> obj_get newVal (keyPath st)"
  shows "\<exists>p e this' st'.
           updateByCursor this storeName attrName attr newVal = Return (p, e, this')
         \<and> getStore this' storeName readwrite = Return st'
         \<and> length (records st') = length (records st)
         \<and> records st' ! length pre = r
         \<and> ((\<forall>x \<in> set pre. cursor_match attrName attr x = Return False)
              \<and> True \<notin> set (take (Suc (length pre)) (faults d))
            \<longrightarrow> p = Fulfilled (Stat primaryKey))"
proof -
  obtain p e rs fl where ev:
    "updateByCursor_events (keyPath st) attrName attr newVal (records st) Pending (faults d)
       = (p, e, rs, fl)"
    by (cases "updateByCursor_events (keyPath st) attrName attr newVal (records st) Pending (faults d)")
  let ?st' = "st\<lparr>records := (if e = Exhausted then rs else records st)\<rparr>"
  have ne: "\<not> strict_eq (get_prop r (keyPath st)) (obj_get newVal (keyPath st))"
    using assms(5) by (auto dest: strict_eq_imp_eq)
  have call: "updateByCursor this storeName attrName attr newVal
      = Return (p, e, commit this storeName ?st' fl)"
    using assms(1,2) ev
    by (simp add: updateByCursor_def getCursor_def getStore_Connection db_faults_Connection)
  have st': "getStore (commit this storeName ?st' fl) storeName readwrite = Return ?st'"
    using assms(1) by (rule getStore_commit)
  have len: "length rs = length (records st)"
    using ev by (rule update_events_length)
  have "rs ! length pre = records st ! length pre"
    using ev by (rule update_events_unmodified) (simp_all add: assms(3) ne)
  then have same: "records ?st' ! length pre = r"
    by (simp add: assms(3))
  have first: "(\<forall>x \<in> set pre. cursor_match attrName attr x = Return False)
      \<and> True \<notin> set (take (Suc (length pre)) (faults d)) \<longrightarrow> p = Fulfilled (Stat primaryKey)"
  proof
    assume h: "(\<forall>x \<in> set pre. cursor_match attrName attr x = Return False)
      \<and> True \<notin> set (take (Suc (length pre)) (faults d))"
    have "fst (updateByCursor_events (keyPath st) attrName attr newVal (pre @ r # post)
             Pending (faults d)) = Fulfilled (Stat primaryKey)"
      using h assms(4) ne by (intro update_events_first_match) auto
    with ev show "p = Fulfilled (Stat primaryKey)" by (simp add: assms(3))
  qed
  from call st' len same first show ?thesis
    by (intro exI [of _ p] exI [of _ e] exI [of _ "commit this storeName ?st' fl"]
        exI [of _ ?st']) simp
qed

theorem updateByCursor_primary_key_witness:
  "cursor_match ''tag'' (JStr ''a'') (JObj (item 2 ''a'')) = Return True
   \<and> cursor_match ''tag'' (JStr ''a'') (JObj (item 1 ''b'')) = Return False
   \<and> get_prop (JObj (item 2 ''a'')) ''id'' \<noteq> obj_get (item 1 ''c'') ''id''
   \<and> updateByCursor (demo_db [JObj (item 1 ''b''), JObj (item 2 ''a'')] []) ''task'' ''tag''
       (JStr ''a'') (item 1 ''c'')
     = Return (Fulfilled (Stat primaryKey), Exhausted,
               demo_db [JObj (item 1 ''b''), JObj (item 2 ''a'')] [])
   \<and> code primaryKey = 117"
  using updateByCursor_primary_key
    [where this = "demo_db [JObj (item 1 ''b''), JObj (item 2 ''a'')] []"
      and d = "\<lparr> stores = [''task'' \<mapsto> task_store [JObj (item 1 ''b''), JObj (item 2 ''a'')]],
                 faults = [] \<rparr>"
      and storeName = "''task''"
      and st = "task_store [JObj (item 1 ''b''), JObj (item 2 ''a'')]"
      and pre = "[JObj (item 1 ''b'')]" and r = "JObj (item 2 ''a'')" and post = "[]"
      and attrName = "''tag''" and attr = "JStr ''a''" and newVal = "item 1 ''c''"]
  by (simp add: updateByCursor_def eval_defs)

section \<open>Cursor calls that find no record\<close>




section \<open>\<open>getAllByCursor\<close> on an empty store\<close>

text \<open>
  C9. \<open>getAllByCursor\<close> on a store of the connection returns a promise and leaves the store as
  it is. On an empty store, when the host does not fail the cursor request, the promise is
  fulfilled with the empty array. On every store it is fulfilled with \<open>undefined\<close> exactly
  when the host fails one of the steps of the cursor request (one step per record and a last
  one); when the host fails none, the cursor is exhausted and the promise holds the array of
  all records.
\<close>

theorem getAllByCursor_empty_store:
  assumes "dataBase this = Connection d"
    and "stores d storeName = Some st"
  shows "\<exists>p e this'.
           getAllByCursor this storeName = Return (p, e, this')
         \<and> getStore this' storeName readonly = Return st
         \<and> (records st = [] \<and> \<not> fault (faults d) \<longrightarrow>
              p = Fulfilled (Data (JArr [])) \<and> e = Exhausted)
         \<and> ((p = Fulfilled (Data JUndefined))
              = (True \<in> set (take (Suc (length (records st))) (faults d))))
         \<and> ((e = Errored) = (True \<in> set (take (Suc (length (records st))) (faults d))))
         \<and> (True \<notin> set (take (Suc (length (records st))) (faults d)) \<longrightarrow>
              e = Exhausted \<and> p = Fulfilled (Data (JArr (records st))))"
proof -
  obtain p e fl where ev:
    "getAllByCursor_events (records st) [] Pending (faults d) = (p, e, fl)"
    by (cases "getAllByCursor_events (records st) [] Pending (faults d)")
  have call: "getAllByCursor this storeName = Return (p, e, commit this storeName st fl)"
    using assms ev
    by (simp add: getAllByCursor_def getCursor_def getStore_Connection db_faults_Connection)
  have st': "getStore (commit this storeName st fl) storeName readonly = Return st"
    using assms(1) by (rule getStore_commit)
  have r: "(p, e, fl) =
     (if True \<in> set (take (Suc (length (records st))) (faults d))
      then (Fulfilled (Data JUndefined), Errored, fl)
      else (Fulfilled (Data (JArr (records st))), Exhausted,
            drop (Suc (length (records st))) (faults d)))"
    using getAllByCursor_events_result [of "records st" "[]" "faults d"]
    unfolding ev by (auto split: if_splits)
  have empty: "records st = [] \<and> \<not> fault (faults d) \<longrightarrow>
      p = Fulfilled (Data (JArr [])) \<and> e = Exhausted"
    using ev by (auto simp: resolve_def)
  from call st' r empty show ?thesis
    by (intro exI [of _ p] exI [of _ e] exI [of _ "commit this storeName st fl"])
       (auto split: if_splits)
qed

theorem getAllByCursor_empty_store_witness:
  "getAllByCursor (demo_db [] []) ''task''
     = Return (Fulfilled (Data (JArr [])), Exhausted, demo_db [] [])
   \<and> getAllByCursor (demo_db [] [True]) ''task''
     = Return (Fulfilled (Data JUndefined), Errored, demo_db [] [])
   \<and> getAllByCursor (demo_db [JObj (item 1 ''a''), JObj (item 2 ''b'')] []) ''task''
     = Return (Fulfilled (Data (JArr [JObj (item 1 ''a''), JObj (item 2 ''b'')])), Exhausted,
               demo_db [JObj (item 1 ''a''), JObj (item 2 ''b'')] [])
   \<and> getAllByCursor (demo_db [JObj (item 1 ''a''), JObj (item 2 ''b'')] [False, True]) ''task''
     = Return (Fulfilled (Data JUndefined), Errored,
               demo_db [JObj (item 1 ''a''), JObj (item 2 ''b'')] [])"
  using getAllByCursor_empty_store
    [where this = "demo_db [] []"
      and d = "\<lparr> stores = [''task'' \<mapsto> task_store []], faults = [] \<rparr>"
      and storeName = "''task''" and st = "task_store []"]
    getAllByCursor_empty_store
    [where this = "demo_db [JObj (item 1 ''a''), JObj (item 2 ''b'')] []"
      and d = "\<lparr> stores = [''task'' \<mapsto> task_store [JObj (item 1 ''a''), JObj (item 2 ''b'')]],
                 faults = [] \<rparr>"
      and storeName = "''task''"
      and st = "task_store [JObj (item 1 ''a''), JObj (item 2 ''b'')]"]
  by (simp add: getAllByCursor_def eval_defs)

section \<open>Errors of the cursor request\<close>

text \<open>
  As the claim C10 is written it fails when a record matched before the cursor request
  ended in an error event. In the first call the \<open>update\<close> request of the matching record
  fails: the promise follows \<open>promisify\<close> of that request and is rejected with \<open>updateFail\<close>
  of the index module, and the abort ends the cursor request in an error event. In the
  second call the record is deleted, which settles the promise with \<open>deleteSuccess\<close>, and
  the cursor request fails on the step after it.
\<close>

theorem cursor_error_after_match_counterexample:
  "updateByCursor (demo_db [JObj (item 1 ''a'')] [False, True]) ''task'' ''tag''
       (JStr ''a'') (item 1 ''b'')
     = Return (Rejected (Stat idx_updateFail), Errored, demo_db [JObj (item 1 ''a'')] [])
   \<and> deleteByCursor (demo_db [JObj (item 1 ''a'')] [False, False, True]) ''task'' ''tag''
       (JStr ''a'')
     = Return (Fulfilled (Stat deleteSuccess), Errored, demo_db [JObj (item 1 ''a'')] [])"
  by (simp add: updateByCursor_def deleteByCursor_def eval_defs)

text \<open>
  C10, amended. When the cursor request ends in an error event at its step \<open>i\<close>, the handler
  having run on the \<open>i\<close> records before it with its test giving false (no match and no
  exception), the promise of \<open>updateByCursor\<close> is fulfilled, not rejected, with \<open>updateFail\<close>
  of the index module, and that of \<open>deleteByCursor\<close> with \<open>deleteFail\<close>; the store is as
  before. \<open>getAllByCursor\<close> on the same event is fulfilled with \<open>undefined\<close>.
\<close>

theorem cursor_error_before_match:
  assumes "dataBase this = Connection d"
    and "stores d storeName = Some st"
    and "faults d = replicate i False @ True # fl"
    and "i \<le> length (records st)"
    and "\<forall>r \<in> set (take i (records st)). cursor_match attrName attr r = Return False"
  shows "updateByCursor this storeName attrName attr newVal =
           Return (Fulfilled (Stat idx_updateFail), Errored, commit this storeName st fl)
       \<and> deleteByCursor this storeName attrName attr =
           Return (Fulfilled (Stat deleteFail), Errored, commit this storeName st fl)
       \<and> getAllByCursor this storeName =
           Return (Fulfilled (Data JUndefined), Errored, commit this storeName st fl)"
proof -
  from update_events_error_before_match [OF assms(4,5), where kp = "keyPath st"
      and nv = newVal and p = Pending and fl = fl] obtain rs' where
    u: "updateByCursor_events (keyPath st) attrName attr newVal (records st) Pending (faults d)
      = (Fulfilled (Stat idx_updateFail), Errored, rs', fl)"
    by (auto simp: resolve_def assms(3))
  from delete_events_error_before_match [OF assms(4,5), where p = Pending and fl = fl]
  obtain rs'' where
    dl: "deleteByCursor_events attrName attr (records st) Pending (faults d)
      = (Fulfilled (Stat deleteFail), Errored, rs'', fl)"
    by (auto simp: resolve_def assms(3))
  have g: "getAllByCursor_events (records st) [] Pending (faults d)
      = (Fulfilled (Data JUndefined), Errored, fl)"
    using getAll_events_error [OF assms(4)] by (simp add: resolve_def assms(3))
  show ?thesis
    using assms(1,2) u dl g
    by (simp add: updateByCursor_def deleteByCursor_def getAllByCursor_def getCursor_def
        getStore_Connection db_faults_Connection)
qed

theorem cursor_error_before_match_witness:
  "cursor_match ''tag'' (JStr ''a'') (JObj (item 1 ''b'')) = Return False
   \<and> updateByCursor (demo_db [JObj (item 1 ''b''), JObj (item 2 ''a'')] [False, True]) ''task''
       ''tag'' (JStr ''a'') (item 2 ''c'')
     = Return (Fulfilled (Stat idx_updateFail), Errored,
               demo_db [JObj (item 1 ''b''), JObj (item 2 ''a'')] [])
   \<and> deleteByCursor (demo_db [JObj (item 1 ''b''), JObj (item 2 ''a'')] [False, True]) ''task''
       ''tag'' (JStr ''a'')
     = Return (Fulfilled (Stat deleteFail), Errored,
               demo_db [JObj (item 1 ''b''), JObj (item 2 ''a'')] [])
   \<and> getAllByCursor (demo_db [JObj (item 1 ''b''), JObj (item 2 ''a'')] [False, True]) ''task''
     = Return (Fulfilled (Data JUndefined), Errored,
               demo_db [JObj (item 1 ''b''), JObj (item 2 ''a'')] [])
   \<and> code idx_updateFail = 115 \<and> code deleteFail = 119"
  using cursor_error_before_match
    [where this = "demo_db [JObj (item 1 ''b''), JObj (item 2 ''a'')] [False, True]"
      and d = "\<lparr> stores = [''task'' \<mapsto> task_store [JObj (item 1 ''b''), JObj (item 2 ''a'')]],
                 faults = [False, True] \<rparr>"
      and storeName = "''task''"
      and st = "task_store [JObj (item 1 ''b''), JObj (item 2 ''a'')]"
      and i = 1 and fl = "[]"
      and attrName = "''tag''" and attr = "JStr ''a''" and newVal = "item 2 ''c''"]
  by (simp add: updateByCursor_def deleteByCursor_def getAllByCursor_def eval_defs)

end
